theory Spec2Isabelle
  imports Main "HOL-Library.Word"
begin

unbundle bit_operations_syntax

section \<open>The Format/Type discriminator (pcie-tlp-cli.go, lines 14-74)\<close>

text \<open>
  \<open>TlpType\<close> is Go's \<open>uint8\<close>. The five format constants are untyped Go constants; every
  use shifts them left by five inside a \<open>TlpType\<close> constant expression, so they are bytes
  here. Each constant is written exactly as its declaration: \<open>(fmt << 5) | type\<close>.
\<close>

type_synonym byte = "8 word"
type_synonym TlpType = "8 word"

definition fmt3DWNoData :: byte where "fmt3DWNoData = 0"
definition fmt4DWNoData :: byte where "fmt4DWNoData = 1"
definition fmt3DWWithData :: byte where "fmt3DWWithData = 2"
definition fmt4DWWithData :: byte where "fmt4DWWithData = 3"
definition fmtTlpPrefix :: byte where "fmtTlpPrefix = 4"

definition MRd3 :: TlpType where "MRd3 = push_bit 5 fmt3DWNoData OR 0"
definition MRd4 :: TlpType where "MRd4 = push_bit 5 fmt4DWNoData OR 0"
definition MRdLk3 :: TlpType where "MRdLk3 = push_bit 5 fmt3DWNoData OR 1"
definition MRdLk4 :: TlpType where "MRdLk4 = push_bit 5 fmt4DWNoData OR 1"
definition MWr3 :: TlpType where "MWr3 = push_bit 5 fmt3DWWithData OR 0"
definition MWr4 :: TlpType where "MWr4 = push_bit 5 fmt4DWWithData OR 0"
definition IORdT :: TlpType where "IORdT = push_bit 5 fmt3DWNoData OR 2"
definition IOWrtT :: TlpType where "IOWrtT = push_bit 5 fmt3DWWithData OR 2"
definition CfgRd0 :: TlpType where "CfgRd0 = push_bit 5 fmt3DWNoData OR 4"
definition CfgWr0 :: TlpType where "CfgWr0 = push_bit 5 fmt3DWWithData OR 4"
definition CfgRd1 :: TlpType where "CfgRd1 = push_bit 5 fmt3DWNoData OR 5"
definition CfgWr1 :: TlpType where "CfgWr1 = push_bit 5 fmt3DWWithData OR 5"
definition CplE :: TlpType where "CplE = push_bit 5 fmt3DWNoData OR 10"
definition CplD :: TlpType where "CplD = push_bit 5 fmt3DWWithData OR 10"
definition CplLk :: TlpType where "CplLk = push_bit 5 fmt3DWNoData OR 11"
definition CplLkD :: TlpType where "CplLkD = push_bit 5 fmt3DWWithData OR 11"
definition MRIOV :: TlpType where "MRIOV = push_bit 5 fmtTlpPrefix OR 0"
definition LocalVendPrefix :: TlpType where "LocalVendPrefix = push_bit 5 fmtTlpPrefix OR 14"
definition ExtTPH :: TlpType where "ExtTPH = push_bit 5 fmtTlpPrefix OR 16"
definition PASID :: TlpType where "PASID = push_bit 5 fmtTlpPrefix OR 17"
definition EndEndVendPrefix :: TlpType where "EndEndVendPrefix = push_bit 5 fmtTlpPrefix OR 30"

text \<open>
  The table of the constant block read as data: every constant with the format and the
  type value its declaration names, in declaration order.
\<close>

definition discriminator_table :: "(TlpType \<times> byte \<times> byte) list" where
  "discriminator_table =
    [(MRd3, fmt3DWNoData, 0), (MRd4, fmt4DWNoData, 0),
     (MRdLk3, fmt3DWNoData, 1), (MRdLk4, fmt4DWNoData, 1),
     (MWr3, fmt3DWWithData, 0), (MWr4, fmt4DWWithData, 0),
     (IORdT, fmt3DWNoData, 2), (IOWrtT, fmt3DWWithData, 2),
     (CfgRd0, fmt3DWNoData, 4), (CfgWr0, fmt3DWWithData, 4),
     (CfgRd1, fmt3DWNoData, 5), (CfgWr1, fmt3DWWithData, 5),
     (CplE, fmt3DWNoData, 10), (CplD, fmt3DWWithData, 10),
     (CplLk, fmt3DWNoData, 11), (CplLkD, fmt3DWWithData, 11),
     (MRIOV, fmtTlpPrefix, 0), (LocalVendPrefix, fmtTlpPrefix, 14),
     (ExtTPH, fmtTlpPrefix, 16), (PASID, fmtTlpPrefix, 17),
     (EndEndVendPrefix, fmtTlpPrefix, 30)]"

text \<open>The two fields of a discriminator byte: bits 7-5 and bits 4-0.\<close>

definition format_bits :: "TlpType \<Rightarrow> byte" where
  "format_bits c = drop_bit 5 c"

definition type_bits :: "TlpType \<Rightarrow> byte" where
  "type_bits c = c AND 0x1F"

definition well_encoded :: "TlpType \<times> byte \<times> byte \<Rightarrow> bool" where
  "well_encoded e =
    (case e of (c, f, t) \<Rightarrow>
      c = (push_bit 5 f OR t) \<and> format_bits c = f \<and> type_bits c = t)"


section \<open>Printing\<close>

text \<open>
  Standard output is the list of the strings written, one element per \<open>fmt.Print\<close>,
  \<open>fmt.Printf\<close> or \<open>fmt.Println\<close> call. \<open>hex_byte\<close> is the verb \<open>%02x\<close> on a \<open>uint8\<close>,
  \<open>hex_u16\<close> is \<open>%04x\<close> on a \<open>uint16\<close>, \<open>space_hex\<close> is \<open>% x\<close> on a \<open>uint8\<close> (a space for
  the sign, then the digits without padding) and \<open>EncodeToString\<close> is Go's
  \<open>hex.EncodeToString\<close>: two lower-case digits per byte.
\<close>

definition nl :: string where
  "nl = [CHR 0x0A]"

definition hexdigit :: "byte \<Rightarrow> char" where
  "hexdigit d = ''0123456789abcdef'' ! unat (d AND 0xF)"

definition hex_byte :: "byte \<Rightarrow> string" where
  "hex_byte b = [hexdigit (drop_bit 4 b), hexdigit b]"

definition hex_u16 :: "16 word \<Rightarrow> string" where
  "hex_u16 w = hex_byte (ucast (drop_bit 8 w)) @ hex_byte (ucast w)"

definition space_hex :: "byte \<Rightarrow> string" where
  "space_hex b =
    '' '' @ (if drop_bit 4 b = 0 then [hexdigit b] else hex_byte b)"

definition EncodeToString :: "byte list \<Rightarrow> string" where
  "EncodeToString bs = concat (map hex_byte bs)"

definition printfmttypes :: "string list" where
  "printfmttypes =
    [''MRd3 '' @ space_hex MRd3 @ nl,
     ''MRd4 '' @ space_hex MRd4 @ nl,
     ''MRdLk3 '' @ space_hex MRdLk3 @ nl,
     ''MRdLk4 '' @ space_hex MRdLk4 @ nl,
     ''MWr3 '' @ space_hex MWr3 @ nl,
     ''MWr4 '' @ space_hex MWr4 @ nl,
     ''IORdT '' @ space_hex IORdT @ nl,
     ''IOWrtT '' @ space_hex IOWrtT @ nl,
     ''CfgRd0 '' @ space_hex CfgRd0 @ nl,
     ''CfgWr0 '' @ space_hex CfgWr0 @ nl,
     ''CfgRd1 '' @ space_hex CfgRd1 @ nl,
     ''CfgWr1 '' @ space_hex CfgWr1 @ nl,
     ''CplE '' @ space_hex CplE @ nl,
     ''CplD '' @ space_hex CplD @ nl,
     ''CplLk '' @ space_hex CplLk @ nl,
     ''CplLkD '' @ space_hex CplLkD @ nl,
     ''MRIOV '' @ space_hex MRIOV @ nl,
     ''LocalVendPrefix '' @ space_hex LocalVendPrefix @ nl,
     ''ExtTPH '' @ space_hex ExtTPH @ nl,
     ''PASID '' @ space_hex PASID @ nl,
     ''EndEndVendPrefix '' @ space_hex EndEndVendPrefix @ nl]"


section \<open>The imported packages\<close>

text \<open>
  The program calls the packages \<open>pcie\<close> (github.com/rabidcicada/go-pcie-tlp),
  \<open>encoding/hex\<close> and \<open>strconv\<close>; none of them is part of this repository. Their functions
  are the fields of a record the program is run against, so every theorem about the
  program below holds for any implementation of them. The types \<open>pcie.DeviceID\<close>,
  \<open>*pcie.MRd\<close>, \<open>*pcie.MWr\<close> and \<open>*pcie.Cpl\<close> are the type parameters. A Go \<open>error\<close> is
  modelled by the text its \<open>Error()\<close> method returns, the only thing the program reads
  from it; \<open>Inl\<close> is the non-nil error.
\<close>

type_synonym err = string

record ('did, 'mrd, 'mwr, 'cpl) ext =
  hex_DecodeString :: "string \<Rightarrow> err + byte list"
  strconv_ParseUint_16_64 :: "string \<Rightarrow> err + 64 word"
  DeviceID_FromString :: "string \<Rightarrow> err + 'did"
  DeviceID_ToUint16 :: "'did \<Rightarrow> 16 word"
  NewMRd :: "'did \<Rightarrow> 8 word \<Rightarrow> 64 word \<Rightarrow> 32 word \<Rightarrow> err + 'mrd"
  NewMWr :: "'did \<Rightarrow> 64 word \<Rightarrow> byte list \<Rightarrow> err + 'mwr"
  NewMRdFromBytes :: "byte list \<Rightarrow> err + 'mrd"
  NewMWrFromBytes :: "byte list \<Rightarrow> err + 'mwr"
  NewCplFromBytes :: "byte list \<Rightarrow> err + 'cpl"
  MRd_ToBytes :: "'mrd \<Rightarrow> byte list"
  MWr_ToBytes :: "'mwr \<Rightarrow> byte list"
  Cpl_ToBytes :: "'cpl \<Rightarrow> byte list"


section \<open>try_decode (lines 210-248)\<close>

text \<open>
  The loop over \<open>types\<close> with its accumulator \<open>errs\<close>. A candidate with no \<open>case\<close> in the
  \<open>switch\<close> falls out of it and the loop goes on with nothing appended. The second
  component of the state, \<open>decoder_calls\<close>, records the names of the candidates whose
  decoder of the \<open>pcie\<close> package was called, in call order; the program does not hold it,
  it is the trace of its calls.
\<close>

record run =
  stdout :: "string list"
  decoder_calls :: "string list"

definition all_tlp_types :: "string list" where
  "all_tlp_types = [''MEMRD'', ''MEMWR'', ''CPL'', ''CFGWR'']"

fun try_types ::
  "('did, 'mrd, 'mwr, 'cpl) ext \<Rightarrow> byte list \<Rightarrow> string list \<Rightarrow> err list \<Rightarrow> string list \<Rightarrow> run"
where
  "try_types X bs [] errs called =
     \<lparr>stdout = map (\<lambda>e. e @ nl) errs, decoder_calls = called\<rparr>"
| "try_types X bs (t # ts) errs called =
     (if t = ''MEMRD'' then
        (case NewMRdFromBytes X bs of
           Inl e \<Rightarrow> try_types X bs ts (errs @ [''MEMRD: '' @ e]) (called @ [t])
         | Inr tlp \<Rightarrow>
             \<lparr>stdout = [''Valid MEMRD Packet:'' @ EncodeToString (MRd_ToBytes X tlp) @ nl],
              decoder_calls = called @ [t]\<rparr>)
      else if t = ''MEMWR'' then
        (case NewMWrFromBytes X bs of
           Inl e \<Rightarrow> try_types X bs ts (errs @ [''MEMWR: '' @ e]) (called @ [t])
         | Inr tlp \<Rightarrow>
             \<lparr>stdout = [''Valid MEMWR Packet:'' @ EncodeToString (MWr_ToBytes X tlp) @ nl],
              decoder_calls = called @ [t]\<rparr>)
      else if t = ''CPL'' then
        (case NewCplFromBytes X bs of
           Inl e \<Rightarrow> try_types X bs ts (errs @ [''CPL: '' @ e]) (called @ [t])
         | Inr tlp \<Rightarrow>
             \<lparr>stdout = [''Valid CPL Packet:'' @ EncodeToString (Cpl_ToBytes X tlp) @ nl],
              decoder_calls = called @ [t]\<rparr>)
      else try_types X bs ts errs called)"

definition try_decode ::
  "('did, 'mrd, 'mwr, 'cpl) ext \<Rightarrow> byte list \<Rightarrow> string list \<Rightarrow> run"
where
  "try_decode X tlp_raw_bytes types = try_types X tlp_raw_bytes types [] []"


section \<open>main (lines 100-208)\<close>

text \<open>
  The command line after \<open>parser.Parse\<close> has succeeded: one field per flag or option.
  \<open>parser.Selector\<close> leaves \<open>tlp_type\<close> empty when \<open>--type\<close> is not given. \<open>tag\<close> and \<open>len\<close>
  are Go \<open>int\<close>s; the conversions \<open>uint8(*tag)\<close> and \<open>uint32(*length)\<close> keep the low bits.
\<close>

record args =
  encode :: bool
  printtypes :: bool
  tlp_raw_bytes_str :: string
  data_raw_bytes_str :: string
  tlp_type :: string
  device_id_str :: string
  tag :: int
  addr_str :: string
  len :: int

text \<open>
  A run of \<open>main\<close> ends by returning or by a panic; \<open>panic(err)\<close> carries an error,
  \<open>panic("...")\<close> a string.
\<close>

datatype panic = PanicError err | PanicString string

datatype exit = Returned | Panicked panic

text \<open>\<open>strings.ReplaceAll(s, " ", "")\<close>.\<close>

definition spaceless :: "string \<Rightarrow> string" where
  "spaceless s = filter (\<lambda>c. c \<noteq> CHR '' '') s"

text \<open>
  Lines 139-163, the first \<open>switch\<close>. \<open>parse_did_addr\<close> is the body of \<open>case "MEMRD"\<close>,
  which \<open>case "MEMWR"\<close> falls through to after decoding the payload. The result is the
  panic, or the values of \<open>did\<close>, \<open>addr\<close> and \<open>data_raw_bytes\<close> (nil, the empty slice, for
  a read).
\<close>

definition parse_did_addr ::
  "('did, 'mrd, 'mwr, 'cpl) ext \<Rightarrow> args \<Rightarrow> byte list \<Rightarrow> panic + ('did \<times> 64 word \<times> byte list)"
where
  "parse_did_addr X a data =
    (case DeviceID_FromString X (device_id_str a) of
       Inl e \<Rightarrow> Inl (PanicError e)
     | Inr did \<Rightarrow>
        (case strconv_ParseUint_16_64 X (addr_str a) of
           Inl e \<Rightarrow> Inl (PanicError e)
         | Inr addr \<Rightarrow> Inr (did, addr, data)))"

definition parse_req_args ::
  "('did, 'mrd, 'mwr, 'cpl) ext \<Rightarrow> args \<Rightarrow> panic + ('did \<times> 64 word \<times> byte list)"
where
  "parse_req_args X a =
    (if tlp_type a = ''MEMWR'' then
       (case hex_DecodeString X (spaceless (data_raw_bytes_str a)) of
          Inl e \<Rightarrow> Inl (PanicError e)
        | Inr data \<Rightarrow> parse_did_addr X a data)
     else if tlp_type a = ''MEMRD'' then parse_did_addr X a []
     else Inl (PanicString ''Unsupported type specified''))"

text \<open>Lines 176-197, the second \<open>switch\<close>: the call of the encoder and the printing.\<close>

definition encode_dispatch ::
  "('did, 'mrd, 'mwr, 'cpl) ext \<Rightarrow> args \<Rightarrow> 'did \<Rightarrow> 64 word \<Rightarrow> byte list \<Rightarrow> string list \<times> exit"
where
  "encode_dispatch X a did addr data_raw_bytes =
    (if tlp_type a = ''MEMRD'' then
       (case NewMRd X did (word_of_int (tag a)) addr (word_of_int (len a)) of
          Inl e \<Rightarrow> ([], Panicked (PanicError e))
        | Inr tlp \<Rightarrow> ([EncodeToString (MRd_ToBytes X tlp)], Returned))
     else if tlp_type a = ''MEMWR'' then
       (case NewMWr X did addr data_raw_bytes of
          Inl e \<Rightarrow> ([], Panicked (PanicError e))
        | Inr tlp \<Rightarrow>
           ([''Did: 0x'' @ hex_u16 (DeviceID_ToUint16 X did) @ nl,
             ''tag: 0x'' @ hex_byte (word_of_int (tag a)) @ nl,
             EncodeToString (MWr_ToBytes X tlp),
             nl @ ''MWr3 as uint8==>'' @ hex_byte MWr3 @ nl,
             nl @ ''MWr4 as uint8==>'' @ hex_byte MWr4 @ nl],
            Returned))
     else ([], Panicked (PanicString ''Unsupported type specified'')))"

definition main ::
  "('did, 'mrd, 'mwr, 'cpl) ext \<Rightarrow> args \<Rightarrow> string list \<times> exit"
where
  "main X a =
    (if printtypes a then (printfmttypes, Returned)
     else if encode a then
       (case parse_req_args X a of
          Inl p \<Rightarrow> ([], Panicked p)
        | Inr (did, addr, data) \<Rightarrow> encode_dispatch X a did addr data)
     else
       (case hex_DecodeString X (spaceless (tlp_raw_bytes_str a)) of
          Inl e \<Rightarrow> ([''Parsing Decode Args'' @ nl], Panicked (PanicError e))
        | Inr tlp_raw_bytes \<Rightarrow>
           ((''Parsing Decode Args'' @ nl) #
              stdout (try_decode X tlp_raw_bytes
                (if tlp_type a = [] then all_tlp_types else [tlp_type a])),
            Returned)))"

text \<open>
  The line of the output that holds the encoded packet, \<open>hex.EncodeToString(tlp.ToBytes())\<close>:
  the only line of a Memory Read run and the third line of a Memory Write run.
\<close>

definition encoded_line :: "args \<Rightarrow> string list \<times> exit \<Rightarrow> string option" where
  "encoded_line a r =
    (case r of
       (out, Returned) \<Rightarrow>
         (if tlp_type a = ''MEMRD'' \<and> length out = 1 then Some (out ! 0)
          else if tlp_type a = ''MEMWR'' \<and> length out = 5 then Some (out ! 2)
          else None)
     | (out, Panicked p) \<Rightarrow> None)"

text \<open>The command line of the README's Memory Write example, with the tag left open.\<close>

definition readme_memwr :: "int \<Rightarrow> args" where
  "readme_memwr t =
    \<lparr>encode = True, printtypes = False, tlp_raw_bytes_str = [],
     data_raw_bytes_str = ''cc cc cc cc ff ff ff ff'', tlp_type = ''MEMWR'',
     device_id_str = ''03:04.4'', tag = t, addr_str = ''18aaffeeddccbbaa'', len = 8\<rparr>"


section \<open>A stand-in for the imported packages\<close>

text \<open>
  One concrete value of the record, to run the program on: a decoder accepts a buffer
  that starts with one of its two discriminator bytes and keeps the buffer as the
  packet; \<open>hex.DecodeString\<close> decodes the empty string to the empty slice; the encoders,
  the device identifier parser and \<open>strconv.ParseUint\<close> reject every input.
  It fixes nothing about the real packages; the theorems below quantify over the record.
\<close>

definition first_byte_in :: "byte list \<Rightarrow> byte list \<Rightarrow> bool" where
  "first_byte_in bs cs = (case bs of [] \<Rightarrow> False | b # rest \<Rightarrow> b \<in> set cs)"

definition standin :: "(unit, byte list, byte list, byte list) ext" where
  "standin =
    \<lparr>hex_DecodeString = (\<lambda>s. if s = [] then Inr [] else Inl ''hex''),
     strconv_ParseUint_16_64 = (\<lambda>s. Inl ''strconv''),
     DeviceID_FromString = (\<lambda>s. Inl ''did''),
     DeviceID_ToUint16 = (\<lambda>d. 0),
     NewMRd = (\<lambda>d t a l. Inl ''mrd''),
     NewMWr = (\<lambda>d a p. Inl ''mwr''),
     NewMRdFromBytes = (\<lambda>bs. if first_byte_in bs [MRd3, MRd4] then Inr bs else Inl ''not MRd''),
     NewMWrFromBytes = (\<lambda>bs. if first_byte_in bs [MWr3, MWr4] then Inr bs else Inl ''not MWr''),
     NewCplFromBytes = (\<lambda>bs. if first_byte_in bs [CplE, CplD] then Inr bs else Inl ''not Cpl''),
     MRd_ToBytes = (\<lambda>p. p),
     MWr_ToBytes = (\<lambda>p. p),
     Cpl_ToBytes = (\<lambda>p. p)\<rparr>"


section \<open>Reading try_decode's switch\<close>

text \<open>
  What one candidate does to the buffer, for stating the properties of the loop:
  \<open>None\<close> when the \<open>switch\<close> has no \<open>case\<close> for the name, else the decoder's error or
  the bytes of the decoded packet. \<open>error_msg\<close> is what a failed candidate appends to
  \<open>errs\<close> (\<open>fmt.Errorf("T: %w", err)\<close>), and \<open>error_lines\<close> are the lines the last loop of
  \<open>try_decode\<close> prints for the candidates of a list whose decoder failed.
\<close>

definition has_decoder :: "string \<Rightarrow> bool" where
  "has_decoder t = (t = ''MEMRD'' \<or> t = ''MEMWR'' \<or> t = ''CPL'')"

definition decode_as ::
  "('did, 'mrd, 'mwr, 'cpl) ext \<Rightarrow> byte list \<Rightarrow> string \<Rightarrow> (err + byte list) option"
where
  "decode_as X bs t =
    (if t = ''MEMRD'' then Some (map_sum id (MRd_ToBytes X) (NewMRdFromBytes X bs))
     else if t = ''MEMWR'' then Some (map_sum id (MWr_ToBytes X) (NewMWrFromBytes X bs))
     else if t = ''CPL'' then Some (map_sum id (Cpl_ToBytes X) (NewCplFromBytes X bs))
     else None)"

definition succeeds :: "('did, 'mrd, 'mwr, 'cpl) ext \<Rightarrow> byte list \<Rightarrow> string \<Rightarrow> bool" where
  "succeeds X bs t = (case decode_as X bs t of Some (Inr out) \<Rightarrow> True | _ \<Rightarrow> False)"

definition error_msg :: "('did, 'mrd, 'mwr, 'cpl) ext \<Rightarrow> byte list \<Rightarrow> string \<Rightarrow> err list" where
  "error_msg X bs t =
    (case decode_as X bs t of Some (Inl e) \<Rightarrow> [t @ '': '' @ e] | _ \<Rightarrow> [])"

definition error_lines :: "('did, 'mrd, 'mwr, 'cpl) ext \<Rightarrow> byte list \<Rightarrow> string list \<Rightarrow> string list" where
  "error_lines X bs types = map (\<lambda>e. e @ nl) (concat (map (error_msg X bs) types))"


section \<open>The codec as the specification describes it\<close>

text \<open>
  The encoders and the device identifier live in the \<open>pcie\<close> package, outside this
  repository. The definitions of this section follow the specification's text, not code.
\<close>

datatype spec_error =
  MalformedHeader | TruncatedBuffer | LengthMismatch | InvalidAddress | InvalidLength
  | InvalidDeviceIDFormat | InvalidCompletionStatus | UnsupportedType

text \<open>
  Modelled from the spec: the Device/Requester ID of the \<open>pcie\<close> package (\<open>pcie.DeviceID\<close>
  with \<open>ToUint16\<close> and \<open>FromString\<close>), which is not among the sources. Section 3: a triple
  (bus: 0-255, device: 0-31, function: 0-7), packed into 16 bits as
  \<open>bus:8 | device:5 | function:3\<close>.
\<close>

record DeviceID =
  bus :: nat
  device :: nat
  func :: nat

definition valid_id :: "DeviceID \<Rightarrow> bool" where
  "valid_id d = (bus d < 256 \<and> device d < 32 \<and> func d < 8)"

definition pack :: "DeviceID \<Rightarrow> 16 word" where
  "pack d = push_bit 8 (word_of_nat (bus d)) OR push_bit 3 (word_of_nat (device d))
            OR word_of_nat (func d)"

definition unpack :: "16 word \<Rightarrow> DeviceID" where
  "unpack w =
    \<lparr>bus = unat (drop_bit 8 w), device = unat (drop_bit 3 w AND 0x1F), func = unat (w AND 7)\<rparr>"

text \<open>
  Modelled from the spec: \<open>parse\<close> of section 4.2, the \<open>FromString\<close> of the absent package:
  it reads \<open>bus:device.function\<close> and fails with \<open>InvalidDeviceIDFormat\<close> on malformed
  syntax or an out-of-range component. The bus is hexadecimal; the specification leaves
  the base of device and function to convention (decimal or hexadecimal), so it is the
  parameter \<open>base\<close>.
\<close>

definition digit_val :: "char \<Rightarrow> nat option" where
  "digit_val c =
    (let n = (of_char c :: nat) in
     if 48 \<le> n \<and> n \<le> 57 then Some (n - 48)
     else if 97 \<le> n \<and> n \<le> 102 then Some (n - 87)
     else if 65 \<le> n \<and> n \<le> 70 then Some (n - 55)
     else None)"

fun read_digits :: "nat \<Rightarrow> nat \<Rightarrow> string \<Rightarrow> nat option" where
  "read_digits b acc [] = Some acc"
| "read_digits b acc (c # cs) =
     (case digit_val c of
        None \<Rightarrow> None
      | Some v \<Rightarrow> if v < b then read_digits b (acc * b + v) cs else None)"

definition read_num :: "nat \<Rightarrow> string \<Rightarrow> nat option" where
  "read_num b s = (if s = [] then None else read_digits b 0 s)"

definition parse :: "nat \<Rightarrow> string \<Rightarrow> spec_error + DeviceID" where
  "parse base s =
    (case dropWhile (\<lambda>c. c \<noteq> CHR '':'') s of
       [] \<Rightarrow> Inl InvalidDeviceIDFormat
     | colon # r \<Rightarrow>
        (case dropWhile (\<lambda>c. c \<noteq> CHR ''.'') r of
           [] \<Rightarrow> Inl InvalidDeviceIDFormat
         | dot # fn_s \<Rightarrow>
            (case (read_num 16 (takeWhile (\<lambda>c. c \<noteq> CHR '':'') s),
                   read_num base (takeWhile (\<lambda>c. c \<noteq> CHR ''.'') r),
                   read_num base fn_s) of
               (Some b, Some d, Some f) \<Rightarrow>
                 (if b < 256 \<and> d < 32 \<and> f < 8
                  then Inr \<lparr>bus = b, device = d, func = f\<rparr>
                  else Inl InvalidDeviceIDFormat)
             | _ \<Rightarrow> Inl InvalidDeviceIDFormat)))"

text \<open>
  Modelled from the spec: the Memory Read and Memory Write encoders of section 4.3
  (\<open>pcie.NewMRd\<close>, \<open>pcie.NewMWr\<close> and \<open>ToBytes\<close> of the absent package). The discriminator
  byte is chosen by address width and presence of payload: an address up to
  \<open>0xFFFFFFFF\<close> takes the 3-dword format, a wider one the 4-dword format; the type bits
  of a memory request are \<open>00000\<close>. The length field is \<open>ceil(bytes / 4)\<close> dwords in ten
  bits; a length of zero or above 4096 bytes fails with \<open>InvalidLength\<close>. The header is
  laid out as section 6 and the decode scenario of section 8 give it: discriminator,
  length in bytes 2-3, requester ID in bytes 4-5, tag in byte 6, byte enables in byte 7,
  then the address, most significant byte first, in one or two dwords; the payload
  follows. The computation of the byte enables is left open by the specification
  (section 9), so it is the parameter \<open>be\<close>. Since the width is chosen from the
  address, no address has bits above the chosen width and \<open>InvalidAddress\<close> cannot arise.
\<close>

definition chosen_format :: "bool \<Rightarrow> 64 word \<Rightarrow> byte" where
  "chosen_format with_data addr =
    (if addr \<le> 0xFFFFFFFF
     then (if with_data then fmt3DWWithData else fmt3DWNoData)
     else (if with_data then fmt4DWWithData else fmt4DWNoData))"

definition discriminator :: "bool \<Rightarrow> 64 word \<Rightarrow> TlpType" where
  "discriminator with_data addr = push_bit 5 (chosen_format with_data addr) OR 0"

definition length_dwords :: "nat \<Rightarrow> nat" where
  "length_dwords n = (n + 3) div 4"

definition address_bytes :: "64 word \<Rightarrow> byte list" where
  "address_bytes addr =
    (if addr \<le> 0xFFFFFFFF
     then map (\<lambda>i. ucast (drop_bit (8 * i) addr)) [3, 2, 1, 0]
     else map (\<lambda>i. ucast (drop_bit (8 * i) addr)) [7, 6, 5, 4, 3, 2, 1, 0])"

definition mem_header ::
  "(64 word \<Rightarrow> nat \<Rightarrow> byte) \<Rightarrow> bool \<Rightarrow> DeviceID \<Rightarrow> byte \<Rightarrow> 64 word \<Rightarrow> nat \<Rightarrow> byte list"
where
  "mem_header be with_data requester tag_field addr n =
    [discriminator with_data addr,
     0,
     word_of_nat (length_dwords n div 256 mod 4),
     word_of_nat (length_dwords n mod 256),
     ucast (drop_bit 8 (pack requester)),
     ucast (pack requester),
     tag_field,
     be addr n]
    @ address_bytes addr"

definition encode_MRd ::
  "(64 word \<Rightarrow> nat \<Rightarrow> byte) \<Rightarrow> DeviceID \<Rightarrow> byte \<Rightarrow> 64 word \<Rightarrow> nat \<Rightarrow> spec_error + byte list"
where
  "encode_MRd be requester tag_field addr n =
    (if n = 0 \<or> 4096 < n then Inl InvalidLength
     else Inr (mem_header be False requester tag_field addr n))"

definition encode_MWr ::
  "(64 word \<Rightarrow> nat \<Rightarrow> byte) \<Rightarrow> DeviceID \<Rightarrow> byte \<Rightarrow> 64 word \<Rightarrow> byte list \<Rightarrow> spec_error + byte list"
where
  "encode_MWr be requester tag_field addr payload =
    (if length payload = 0 \<or> 4096 < length payload then Inl InvalidLength
     else Inr (mem_header be True requester tag_field addr (length payload) @ payload))"

text \<open>The first byte of an encoding, its format bits, and its last \<open>n\<close> bytes.\<close>

definition first_byte :: "byte list \<Rightarrow> byte option" where
  "first_byte bs = (case bs of [] \<Rightarrow> None | b # rest \<Rightarrow> Some b)"

definition trailing :: "nat \<Rightarrow> byte list \<Rightarrow> byte list" where
  "trailing n bs = drop (length bs - n) bs"

text \<open>One byte-enable policy to run the encoders with: every byte enabled.\<close>

definition be_all :: "64 word \<Rightarrow> nat \<Rightarrow> byte" where
  "be_all addr n = 0xFF"

text \<open>The Memory Write of the specification's encode scenario.\<close>

definition scenario_payload :: "byte list" where
  "scenario_payload = [0xCC, 0xCC, 0xCC, 0xCC, 0xFF, 0xFF, 0xFF, 0xFF]"

definition scenario_MWr :: "(64 word \<Rightarrow> nat \<Rightarrow> byte) \<Rightarrow> spec_error + byte list" where
  "scenario_MWr be =
    encode_MWr be \<lparr>bus = 3, device = 4, func = 4\<rparr> 137 0x18AAFFEEDDCCBBAA scenario_payload"


section \<open>Properties of the discriminator constants\<close>

lemmas fmt_defs =
  fmt3DWNoData_def fmt4DWNoData_def fmt3DWWithData_def fmt4DWWithData_def fmtTlpPrefix_def

lemmas tlp_defs =
  MRd3_def MRd4_def MRdLk3_def MRdLk4_def MWr3_def MWr4_def IORdT_def IOWrtT_def
  CfgRd0_def CfgWr0_def CfgRd1_def CfgWr1_def CplE_def CplD_def CplLk_def CplLkD_def
  MRIOV_def LocalVendPrefix_def ExtTPH_def PASID_def EndEndVendPrefix_def

text \<open>
  C2, as amended. Every constant of the table equals \<open>(format << 5) | type\<close>, with its
  format in bits 7-5 and its type in bits 4-0. The values are \<open>MRd3 = 0x00\<close>,
  \<open>MRd4 = 0x20\<close>, \<open>MWr3 = 0x40\<close>, \<open>MWr4 = 0x60 = 0x40 | 0x20\<close>, \<open>CplE = 0x0A\<close> and
  \<open>CplD = 0x4A\<close>, and each 4-dword memory constant differs from its 3-dword constant in
  bit 5 only.
\<close>

theorem discriminator_constants:
  "list_all well_encoded discriminator_table
   \<and> MRd3 = 0x00 \<and> MRd4 = 0x20 \<and> MWr3 = 0x40 \<and> MWr4 = 0x60 \<and> MWr4 = 0x40 OR 0x20
   \<and> CplE = 0x0A \<and> CplD = 0x4A
   \<and> MRd4 XOR MRd3 = 0x20 \<and> MRdLk4 XOR MRdLk3 = 0x20 \<and> MWr4 XOR MWr3 = 0x20"
proof -
  have table: "list_all well_encoded discriminator_table"
    by (simp add: discriminator_table_def well_encoded_def format_bits_def type_bits_def
          tlp_defs fmt_defs)
  have vals: "MRd3 = 0x00 \<and> MRd4 = 0x20 \<and> MWr3 = 0x40 \<and> MWr4 = 0x60 \<and> MWr4 = 0x40 OR 0x20
      \<and> CplE = 0x0A \<and> CplD = 0x4A"
    by (simp add: tlp_defs fmt_defs)
  have bit5: "MRd4 XOR MRd3 = 0x20 \<and> MRdLk4 XOR MRdLk3 = 0x20 \<and> MWr4 XOR MWr3 = 0x20"
    by (simp add: tlp_defs fmt_defs)
  from table vals bit5 show ?thesis by blast
qed

text \<open>
  C2 as it was stated gives \<open>MWr3 = 0x60\<close>. The declaration
  \<open>(fmt3DWWithData << 5) | 0b00000\<close> evaluates to \<open>0x40\<close>; \<open>0x60\<close> is \<open>MWr4\<close>.
\<close>

theorem MWr3_is_not_0x60: "MWr3 \<noteq> 0x60"
  by (simp add: MWr3_def fmt3DWWithData_def)


section \<open>Properties of try_decode\<close>

text \<open>
  Candidates before the first success: each one that has a decoder is called once and
  appends its one error; each one without a \<open>case\<close> is passed over.
\<close>

lemma try_types_skip_failed:
  "\<forall>u\<in>set pre. \<not> succeeds X bs u \<Longrightarrow>
   try_types X bs (pre @ rest) errs called =
   try_types X bs rest (errs @ concat (map (error_msg X bs) pre))
     (called @ filter has_decoder pre)"
proof (induction pre arbitrary: errs called)
  case Nil
  then show ?case by simp
next
  case (Cons u pre)
  from Cons.prems have rest_fail: "\<forall>v\<in>set pre. \<not> succeeds X bs v"
    and u_fail: "\<not> succeeds X bs u" by simp_all
  note IH = Cons.IH [OF rest_fail]
  show ?case
    using u_fail
    by (auto simp: IH succeeds_def decode_as_def error_msg_def has_decoder_def
             split: sum.splits)
qed

lemma try_types_success:
  "decode_as X bs t = Some (Inr out) \<Longrightarrow>
   try_types X bs (t # post) errs called =
   \<lparr>stdout = [''Valid '' @ t @ '' Packet:'' @ EncodeToString out @ nl],
    decoder_calls = called @ [t]\<rparr>"
  by (auto simp: decode_as_def split: if_splits sum.splits)

lemma try_decode_returns_at_first_success:
  assumes "decode_as X bs t = Some (Inr out)" and "\<forall>u\<in>set pre. \<not> succeeds X bs u"
  shows "try_decode X bs (pre @ t # post) =
    \<lparr>stdout = [''Valid '' @ t @ '' Packet:'' @ EncodeToString out @ nl],
     decoder_calls = filter has_decoder pre @ [t]\<rparr>"
  unfolding try_decode_def
  by (simp del: try_types.simps
        add: try_types_skip_failed [OF assms(2)] try_types_success [OF assms(1)])

lemma try_decode_all_failed:
  assumes "\<forall>u\<in>set types. \<not> succeeds X bs u"
  shows "try_decode X bs types =
    \<lparr>stdout = error_lines X bs types, decoder_calls = filter has_decoder types\<rparr>"
  using try_types_skip_failed [OF assms, of "[]" "[]" "[]"]
  by (simp add: try_decode_def error_lines_def)

lemma try_decode_no_case: "\<not> has_decoder t \<Longrightarrow> try_decode X bs [t] = \<lparr>stdout = [], decoder_calls = []\<rparr>"
  by (simp add: try_decode_def has_decoder_def)

text \<open>
  C10. try_decode tries the candidates in list order and returns at the first one whose
  decoder succeeds: when \<open>t\<close> succeeds and no candidate listed before it does, the output
  is the single line \<open>Valid t Packet:\<close> with the re-encoded bytes, no error is printed,
  the decoders called are those of the candidates before \<open>t\<close> and of \<open>t\<close>, in order, and no
  candidate listed after \<open>t\<close> is called. When no candidate succeeds, the output is the
  accumulated errors, one line for each candidate whose decoder was called.
\<close>

theorem try_decode_first_success:
  "(decode_as X bs t = Some (Inr out) \<and> (\<forall>u\<in>set pre. \<not> succeeds X bs u) \<longrightarrow>
      try_decode X bs (pre @ t # post) =
        \<lparr>stdout = [''Valid '' @ t @ '' Packet:'' @ EncodeToString out @ nl],
         decoder_calls = filter has_decoder pre @ [t]\<rparr>)
   \<and> ((\<forall>u\<in>set types. \<not> succeeds X bs2 u) \<longrightarrow>
      try_decode X bs2 types =
        \<lparr>stdout = error_lines X bs2 types, decoder_calls = filter has_decoder types\<rparr>)"
  using try_decode_returns_at_first_success [of X bs t out pre post]
    try_decode_all_failed [of types X bs2]
  by blast


text \<open>The stand-in's decoders on two buffers.\<close>

lemma standin_decoders:
  "decode_as standin [0x40, 1] ''MEMRD'' = Some (Inl ''not MRd'')"
  "decode_as standin [0x40, 1] ''MEMWR'' = Some (Inr [0x40, 1])"
  "decode_as standin [0x50, 1] ''MEMRD'' = Some (Inl ''not MRd'')"
  "decode_as standin [0x50, 1] ''MEMWR'' = Some (Inl ''not MWr'')"
  "decode_as standin [0x50, 1] ''CPL'' = Some (Inl ''not Cpl'')"
  "decode_as standin [0x50, 1] ''CFGWR'' = None"
  by (simp_all add: decode_as_def standin_def first_byte_in_def tlp_defs fmt_defs)

text \<open>
  A run of C10's theorem on the default candidate list: on a buffer that starts with
  \<open>MWr3\<close> the loop calls the Memory Read decoder, then the Memory Write decoder, prints
  the one packet line and stops; on a buffer no decoder accepts it prints the three
  errors.
\<close>

theorem try_decode_first_success_witness:
  "try_decode standin [0x40, 1] all_tlp_types =
     \<lparr>stdout = [''Valid MEMWR Packet:4001'' @ nl], decoder_calls = [''MEMRD'', ''MEMWR'']\<rparr>
   \<and> try_decode standin [0x50, 1] all_tlp_types =
     \<lparr>stdout = [''MEMRD: not MRd'' @ nl, ''MEMWR: not MWr'' @ nl, ''CPL: not Cpl'' @ nl],
      decoder_calls = [''MEMRD'', ''MEMWR'', ''CPL'']\<rparr>"
proof -
  have first: "decode_as standin [0x40, 1] ''MEMWR'' = Some (Inr [0x40, 1])
      \<and> (\<forall>u\<in>set [''MEMRD'']. \<not> succeeds standin [0x40, 1] u)"
    by (simp add: succeeds_def standin_decoders)
  have none: "\<forall>u\<in>set all_tlp_types. \<not> succeeds standin [0x50, 1] u"
    by (simp add: succeeds_def standin_decoders all_tlp_types_def)
  have hex: "EncodeToString [0x40, 1] = ''4001''"
    by (simp add: EncodeToString_def hex_byte_def hexdigit_def)
  have lines: "error_lines standin [0x50, 1] all_tlp_types =
      [''MEMRD: not MRd'' @ nl, ''MEMWR: not MWr'' @ nl, ''CPL: not Cpl'' @ nl]"
    by (simp add: error_lines_def error_msg_def standin_decoders all_tlp_types_def)
  have called: "filter has_decoder [''MEMRD''] @ [''MEMWR''] = [''MEMRD'', ''MEMWR'']"
    "filter has_decoder all_tlp_types = [''MEMRD'', ''MEMWR'', ''CPL'']"
    by (simp_all add: has_decoder_def all_tlp_types_def)
  have split: "all_tlp_types = [''MEMRD''] @ ''MEMWR'' # [''CPL'', ''CFGWR'']"
    by (simp add: all_tlp_types_def)
  from try_decode_first_success
    [of standin "[0x40, 1]" "''MEMWR''" "[0x40, 1]" "[''MEMRD'']" "[''CPL'', ''CFGWR'']"
        all_tlp_types "[0x50, 1]"]
    first none
  have "try_decode standin [0x40, 1] ([''MEMRD''] @ ''MEMWR'' # [''CPL'', ''CFGWR'']) =
        \<lparr>stdout = [''Valid '' @ ''MEMWR'' @ '' Packet:'' @ EncodeToString [0x40, 1] @ nl],
         decoder_calls = filter has_decoder [''MEMRD''] @ [''MEMWR'']\<rparr>"
    and "try_decode standin [0x50, 1] all_tlp_types =
        \<lparr>stdout = error_lines standin [0x50, 1] all_tlp_types,
         decoder_calls = filter has_decoder all_tlp_types\<rparr>"
    by blast+
  then show ?thesis
    unfolding called lines hex split [symmetric] by simp
qed

text \<open>
  C1, where the code departs from it. The candidate \<open>CFGWR\<close> is in the default list and
  is accepted by the type selector, but the \<open>switch\<close> of try_decode has no \<open>case\<close> for it:
  tried alone it calls no decoder and prints nothing, neither a packet nor an error, and
  with the default list of four candidates fewer than four lines are ever printed.
\<close>

theorem cfgwr_candidate_skipped:
  "try_decode X bs [''CFGWR''] = \<lparr>stdout = [], decoder_calls = []\<rparr>
   \<and> length (stdout (try_decode X bs all_tlp_types)) < length all_tlp_types"
proof -
  have alone: "try_decode X bs [''CFGWR''] = \<lparr>stdout = [], decoder_calls = []\<rparr>"
    by (rule try_decode_no_case) (simp add: has_decoder_def)
  have fewer: "length (stdout (try_decode X bs all_tlp_types)) < length all_tlp_types"
    by (simp add: try_decode_def all_tlp_types_def split: sum.splits)
  from alone fewer show ?thesis by blast
qed


section \<open>Properties of main\<close>

text \<open>
  C9. In encode mode every selected type other than MEMRD and MEMWR, CPL and CFGWR
  included, ends the first \<open>switch\<close> in \<open>panic("Unsupported type specified")\<close>: nothing
  has been printed and the second \<open>switch\<close>, the only place that calls an encoder, is not
  reached. The result is the same for every implementation of the imported packages.
\<close>

theorem encode_unsupported_type_panics:
  assumes "encode a" and "\<not> printtypes a"
    and "tlp_type a \<noteq> ''MEMRD''" and "tlp_type a \<noteq> ''MEMWR''"
  shows "parse_req_args X a = Inl (PanicString ''Unsupported type specified'')
       \<and> main X a = ([], Panicked (PanicString ''Unsupported type specified''))"
  using assms by (simp add: main_def parse_req_args_def)

text \<open>The theorem at \<open>-e --type CFGWR\<close> with the README's other options.\<close>

theorem encode_unsupported_type_panics_witness:
  "main standin \<lparr>encode = True, printtypes = False, tlp_raw_bytes_str = [],
     data_raw_bytes_str = [], tlp_type = ''CFGWR'',
     device_id_str = ''03:04.4'', tag = 137, addr_str = ''18aaffeeddccbbaa'', len = 8\<rparr>
     = ([], Panicked (PanicString ''Unsupported type specified''))"
  using encode_unsupported_type_panics
    [of "\<lparr>encode = True, printtypes = False, tlp_raw_bytes_str = [],
          data_raw_bytes_str = [], tlp_type = ''CFGWR'',
          device_id_str = ''03:04.4'', tag = 137, addr_str = ''18aaffeeddccbbaa'', len = 8\<rparr>"
        standin]
  by simp

text \<open>
  The tag of a Memory Write never reaches the encoder: \<open>pcie.NewMWr(did, addr,
  data_raw_bytes)\<close> takes none, so the line holding the encoded packet is the same for
  every tag.
\<close>

lemma memwr_encoded_line_tag:
  assumes "tlp_type a = ''MEMWR''"
  shows "encoded_line (a\<lparr>tag := t\<rparr>) (main X (a\<lparr>tag := t\<rparr>)) = encoded_line a (main X a)"
  using assms
  by (auto simp: main_def encoded_line_def parse_req_args_def parse_did_addr_def
        encode_dispatch_def split: sum.splits prod.splits)

text \<open>
  C3, where the code departs from it. For the README's Memory Write, the encoded packet
  printed for tag 137 is the one printed for tag 0, whatever the imported packages do;
  so no decoder, applied to the encoded packet, gives back both tags.
\<close>

theorem memwr_tag_not_encoded:
  "encoded_line (readme_memwr 137) (main X (readme_memwr 137))
     = encoded_line (readme_memwr 0) (main X (readme_memwr 0))
   \<and> \<not> (decode_tag (encoded_line (readme_memwr 137) (main X (readme_memwr 137))) = (137::int)
        \<and> decode_tag (encoded_line (readme_memwr 0) (main X (readme_memwr 0))) = 0)"
proof -
  have a: "readme_memwr 137 = (readme_memwr 0)\<lparr>tag := 137\<rparr>"
    by (simp add: readme_memwr_def)
  have t: "tlp_type (readme_memwr 0) = ''MEMWR''"
    by (simp add: readme_memwr_def)
  have e: "encoded_line (readme_memwr 137) (main X (readme_memwr 137))
     = encoded_line (readme_memwr 0) (main X (readme_memwr 0))"
    unfolding a by (rule memwr_encoded_line_tag [OF t])
  show ?thesis using e by auto
qed

text \<open>
  C8, where the code departs from it. In decode mode with the candidate \<open>CFGWR\<close>, a
  buffer shorter than the four bytes of the smallest header (the empty buffer too) is
  met with no error at all: main prints its banner and returns.
\<close>

theorem short_buffer_cfgwr_no_error:
  assumes "\<not> printtypes a" and "\<not> encode a" and "tlp_type a = ''CFGWR''"
    and "hex_DecodeString X (spaceless (tlp_raw_bytes_str a)) = Inr bs" and "length bs < 4"
  shows "main X a = ([''Parsing Decode Args'' @ nl], Returned)"
  using assms by (simp add: main_def try_decode_def)

text \<open>The theorem at \<open>--type CFGWR -b ""\<close>.\<close>

theorem short_buffer_cfgwr_no_error_witness:
  "main standin \<lparr>encode = False, printtypes = False, tlp_raw_bytes_str = [],
     data_raw_bytes_str = [], tlp_type = ''CFGWR'',
     device_id_str = [], tag = 0, addr_str = [], len = 0\<rparr>
     = ([''Parsing Decode Args'' @ nl], Returned)"
  using short_buffer_cfgwr_no_error
    [of "\<lparr>encode = False, printtypes = False, tlp_raw_bytes_str = [],
          data_raw_bytes_str = [], tlp_type = ''CFGWR'',
          device_id_str = [], tag = 0, addr_str = [], len = 0\<rparr>" standin "[]"]
  by (simp add: standin_def spaceless_def)


section \<open>Properties of the codec as specified\<close>

lemma and_7_take_bit: "(w::16 word) AND 7 = take_bit 3 w"
  by (simp add: take_bit_eq_mask mask_eq_exp_minus_1)

lemma and_1F_take_bit: "(w::16 word) AND 0x1F = take_bit 5 w"
  by (simp add: take_bit_eq_mask mask_eq_exp_minus_1)

lemma pack_unpack: "pack (unpack w) = w"
proof (rule bit_word_eqI)
  fix n assume n: "n < LENGTH(16)"
  consider "n < 3" | "3 \<le> n" "n < 8" | "8 \<le> n" by linarith
  then show "bit (pack (unpack w)) n = bit w n"
    using n by cases (auto simp: pack_def unpack_def and_7_take_bit and_1F_take_bit bit_simps)
qed

lemma valid_unpack: "valid_id (unpack w)"
proof -
  have "unat w < 2 ^ 16"
    using unsigned_less [of w, where ?'a = nat] by simp
  moreover have "unat (drop_bit 8 w) = drop_bit 8 (unat w)"
    by (rule unat_drop_bit_eq)
  moreover have "drop_bit 8 (unat w) = unat w div 2 ^ 8"
    by (rule drop_bit_eq_div)
  ultimately have b: "unat (drop_bit 8 w) < 256"
    by simp
  have d: "unat (take_bit 5 (drop_bit 3 w)) < 32"
    using take_bit_nat_less_exp [of 5 "unat (drop_bit 3 w)"]
    by (simp add: unsigned_take_bit_eq)
  have f: "unat (take_bit 3 w) < 8"
    using take_bit_nat_less_exp [of 3 "unat w"]
    by (simp add: unsigned_take_bit_eq)
  from b d f show ?thesis
    by (simp add: valid_id_def unpack_def and_7_take_bit and_1F_take_bit)
qed

lemma unpack_pack_take_bit:
  "unpack (pack \<lparr>bus = take_bit 8 b, device = take_bit 5 dv, func = take_bit 3 f\<rparr>)
     = \<lparr>bus = take_bit 8 b, device = take_bit 5 dv, func = take_bit 3 f\<rparr>"
proof -
  let ?W = "pack \<lparr>bus = take_bit 8 b, device = take_bit 5 dv, func = take_bit 3 f\<rparr>"
  have "unat (drop_bit 8 ?W) = take_bit 8 b"
    by (auto simp: pack_def bit_eq_iff bit_simps)
  moreover have "unat (take_bit 5 (drop_bit 3 ?W)) = take_bit 5 dv"
    by (auto simp: pack_def bit_eq_iff bit_simps)
  moreover have "unat (take_bit 3 ?W) = take_bit 3 f"
    by (auto simp: pack_def bit_eq_iff bit_simps)
  ultimately show ?thesis
    by (simp add: unpack_def and_7_take_bit and_1F_take_bit)
qed

lemma unpack_pack:
  assumes "valid_id d"
  shows "unpack (pack d) = d"
proof -
  have "d = \<lparr>bus = take_bit 8 (bus d), device = take_bit 5 (device d), func = take_bit 3 (func d)\<rparr>"
    using assms by (simp add: valid_id_def take_bit_nat_eq_self)
  then show ?thesis
    using unpack_pack_take_bit [of "bus d" "device d" "func d"] by simp
qed

lemma parse_valid: "parse base s = Inr x \<Longrightarrow> valid_id x"
  by (auto simp: parse_def valid_id_def split: list.splits option.splits if_splits)

text \<open>
  C7. Packing and unpacking are mutually inverse: \<open>unpack (pack d) = d\<close> for every
  triple with bus in [0,255], device in [0,31] and function in [0,7], and
  \<open>pack (unpack w) = w\<close> with \<open>unpack w\<close> in range for every 16-bit value; a string that
  parses to \<open>x\<close> parses to a triple in range, and packing the result of parsing it is
  packing \<open>x\<close>.
\<close>

theorem device_id_roundtrip:
  "(valid_id d \<longrightarrow> unpack (pack d) = d)
   \<and> pack (unpack w) = w \<and> valid_id (unpack w)
   \<and> (parse base str = Inr x \<longrightarrow>
        valid_id x \<and> map_sum id pack (parse base str) = Inr (pack x) \<and> unpack (pack x) = x)"
  using unpack_pack [of d] pack_unpack [of w] valid_unpack [of w]
    parse_valid [of base str x] unpack_pack [of x]
  by simp

text \<open>The theorem at the device \<open>03:04.4\<close>, whose packed form is \<open>0x0324\<close>.\<close>

theorem device_id_roundtrip_witness:
  "valid_id \<lparr>bus = 3, device = 4, func = 4\<rparr>
   \<and> unpack (pack \<lparr>bus = 3, device = 4, func = 4\<rparr>) = \<lparr>bus = 3, device = 4, func = 4\<rparr>
   \<and> pack \<lparr>bus = 3, device = 4, func = 4\<rparr> = 0x0324
   \<and> parse 16 ''03:04.4'' = Inr \<lparr>bus = 3, device = 4, func = 4\<rparr>
   \<and> map_sum id pack (parse 16 ''03:04.4'') = Inr 0x0324"
proof -
  have v: "valid_id \<lparr>bus = 3, device = 4, func = 4\<rparr>"
    by (simp add: valid_id_def)
  have p: "parse 16 ''03:04.4'' = Inr \<lparr>bus = 3, device = 4, func = 4\<rparr>"
    by (simp add: parse_def read_num_def digit_val_def)
  have k: "pack \<lparr>bus = 3, device = 4, func = 4\<rparr> = 0x0324"
    by (simp add: pack_def)
  from device_id_roundtrip
    [of "\<lparr>bus = 3, device = 4, func = 4\<rparr>" "0x0324" 16 "''03:04.4''"
        "\<lparr>bus = 3, device = 4, func = 4\<rparr>"] v p k
  show ?thesis by simp
qed

text \<open>
  C4. The encoding of a Memory Read or Memory Write of a valid length starts with the
  3-dword discriminator (\<open>MRd3\<close>, \<open>MWr3\<close>: format bits \<open>fmt3DWNoData\<close>, \<open>fmt3DWWithData\<close>)
  when the address is at most \<open>0xFFFFFFFF\<close>, and with the 4-dword discriminator (\<open>MRd4\<close>,
  \<open>MWr4\<close>: format bits \<open>fmt4DWNoData\<close>, \<open>fmt4DWWithData\<close>) when it is wider; a length of
  zero or above 4096 bytes is \<open>InvalidLength\<close>.
\<close>

theorem address_width_selects_format:
  "map_sum id first_byte (encode_MRd be r t addr n) =
     (if n = 0 \<or> 4096 < n then Inl InvalidLength
      else Inr (Some (if addr \<le> 0xFFFFFFFF then MRd3 else MRd4)))
   \<and> map_sum id first_byte (encode_MWr be r t addr p) =
     (if length p = 0 \<or> 4096 < length p then Inl InvalidLength
      else Inr (Some (if addr \<le> 0xFFFFFFFF then MWr3 else MWr4)))
   \<and> format_bits MRd3 = fmt3DWNoData \<and> format_bits MRd4 = fmt4DWNoData
   \<and> format_bits MWr3 = fmt3DWWithData \<and> format_bits MWr4 = fmt4DWWithData"
proof -
  have rd: "map_sum id first_byte (encode_MRd be r t addr n) =
     (if n = 0 \<or> 4096 < n then Inl InvalidLength
      else Inr (Some (if addr \<le> 0xFFFFFFFF then MRd3 else MRd4)))"
    by (simp add: encode_MRd_def mem_header_def first_byte_def discriminator_def
          chosen_format_def MRd3_def MRd4_def)
  have wr: "map_sum id first_byte (encode_MWr be r t addr p) =
     (if length p = 0 \<or> 4096 < length p then Inl InvalidLength
      else Inr (Some (if addr \<le> 0xFFFFFFFF then MWr3 else MWr4)))"
    by (simp add: encode_MWr_def mem_header_def first_byte_def discriminator_def
          chosen_format_def MWr3_def MWr4_def)
  have fmts: "format_bits MRd3 = fmt3DWNoData \<and> format_bits MRd4 = fmt4DWNoData
      \<and> format_bits MWr3 = fmt3DWWithData \<and> format_bits MWr4 = fmt4DWWithData"
    by (simp add: format_bits_def MRd3_def MRd4_def MWr3_def MWr4_def fmt_defs)
  from rd wr fmts show ?thesis by blast
qed

text \<open>Two encodings in full, with every byte enabled.\<close>

lemma encode_examples:
  "encode_MRd be_all \<lparr>bus = 3, device = 4, func = 4\<rparr> 0x89 0x18AAFFEEDDCCBBA8 8
     = Inr [0x20, 0, 0, 2, 3, 0x24, 0x89, 0xFF, 0x18, 0xAA, 0xFF, 0xEE, 0xDD, 0xCC, 0xBB, 0xA8]"
  "encode_MRd be_all \<lparr>bus = 3, device = 4, func = 4\<rparr> 137 0x1000 8
     = Inr [0x00, 0, 0, 2, 3, 0x24, 137, 0xFF, 0, 0, 0x10, 0]"
  "scenario_MWr be_all
     = Inr [0x60, 0, 0, 2, 3, 0x24, 137, 0xFF, 0x18, 0xAA, 0xFF, 0xEE, 0xDD, 0xCC, 0xBB, 0xAA,
            0xCC, 0xCC, 0xCC, 0xCC, 0xFF, 0xFF, 0xFF, 0xFF]"
  by (simp_all add: scenario_MWr_def encode_MRd_def encode_MWr_def scenario_payload_def
        mem_header_def discriminator_def chosen_format_def fmt_defs length_dwords_def
        pack_def address_bytes_def be_all_def)

text \<open>
  C5, as amended. The scenario's address \<open>0x18aaffeeddccbbaa\<close> needs more than 32 bits,
  so the encoding starts with the 4-dword-with-data Memory Write discriminator,
  \<open>MWr4 = 0x60\<close>, and its last 8 bytes are the payload, for any byte-enable policy.
\<close>

theorem scenario_memwr_is_four_dword:
  "map_sum id (\<lambda>bs. (first_byte bs, trailing 8 bs)) (scenario_MWr be)
     = Inr (Some MWr4, scenario_payload)
   \<and> MWr4 = 0x60 \<and> format_bits MWr4 = fmt4DWWithData"
  by (simp add: scenario_MWr_def encode_MWr_def scenario_payload_def mem_header_def
        discriminator_def chosen_format_def first_byte_def trailing_def MWr4_def fmt_defs
        address_bytes_def format_bits_def)

text \<open>
  C5 as it was stated has the first byte equal to the 3-dword-with-data encoding,
  \<open>MWr3\<close>, taken to be \<open>0x60\<close>. The first byte of the scenario's encoding is not \<open>MWr3\<close>,
  and \<open>MWr3\<close> is not \<open>0x60\<close>.
\<close>

theorem scenario_memwr_not_MWr3:
  "map_sum id first_byte (scenario_MWr be_all) \<noteq> Inr (Some MWr3) \<and> MWr3 \<noteq> 0x60"
  by (simp add: scenario_MWr_def encode_MWr_def scenario_payload_def mem_header_def
        discriminator_def chosen_format_def first_byte_def MWr3_def fmt_defs)

end
